theory Spec2Isabelle
  imports Complex_Main "HOL-Library.Char_ord" "HOL-Library.List_Lexorder"
begin

section \<open>Data model of the workflow engine\<close>

text \<open>
  The engine of \<^verbatim>\<open>quantum_workflow_engine.py\<close> keeps its data in Python dictionaries.
  A dictionary whose keys are fixed by the code that builds it is a record here; a
  dictionary supplied by a caller is a map from the key to the value (an execution
  context) or a record of optional fields (an execution result, whose values differ in
  type), so that an absent key is \<open>None\<close>. Python's numbers are exact rationals: the
  arithmetic of the source is modelled without rounding. The clock \<^verbatim>\<open>time.time()\<close>
  is an argument of every function that reads it. The key \<^verbatim>\<open>"type"\<close> of a variant is
  the field \<open>variant_type\<close>, that of a plan step is \<open>step_type\<close>.
\<close>

datatype WorkflowState = SUPERPOSITION | COLLAPSED | ENTANGLED | EVOLVING | CONSCIOUS

datatype py_error = ValueError string | IndexError | KeyError string

type_synonym context_dict = "string \<rightharpoonup> rat"

record trade_offs_dict =
  speed :: rat
  reliability :: rat
  resource_usage :: rat

record variant =
  variant_type :: string
  characteristics :: "string list"
  trade_offs :: trade_offs_dict

record intent_dict =
  primary_goal :: string
  emotional_context :: "string \<rightharpoonup> rat"
  hidden_requirements :: "string list"
  optimization_opportunities :: "string list"
  user_stress_points :: "string list"

record weights_dict =
  time_pressure :: rat
  resource_availability :: rat
  user_expertise :: rat
  system_load :: rat
  error_tolerance :: rat

record plan_step =
  step :: string
  step_type :: string
  consciousness_required :: bool
  parallelization :: "string option"
  thread_count :: "int option"
  validation_depth :: "string option"
  validation_layers :: "string list option"
  logging_level :: "string option"
  monitoring :: "string option"

text \<open>
  A stored workflow: the keys written by \<^verbatim>\<open>create_quantum_workflow\<close> that the collapse
  path reads or keeps, and the keys that \<^verbatim>\<open>collapse_workflow\<close> merges in, absent
  (\<open>None\<close>) until then. Left out are \<^verbatim>\<open>probability_amplitudes\<close>, which nothing reads,
  and \<^verbatim>\<open>temporal_optimizations\<close>, \<^verbatim>\<open>entanglement_opportunities\<close> and
  \<^verbatim>\<open>evolution_potential\<close>, whose helper methods the source does not define.
\<close>

record workflow =
  wf_id :: string
  description :: string
  intent :: intent_dict
  state :: WorkflowState
  possible_implementations :: "variant list"
  consciousness_level :: rat
  user_context :: context_dict
  creation_timestamp :: rat
  selected_variant :: "variant option"
  execution_plan :: "plan_step list option"
  execution_context :: "context_dict option"
  collapse_timestamp :: "rat option"

text \<open>The dictionary \<^verbatim>\<open>collapsed_workflow\<close> that \<^verbatim>\<open>collapse_workflow\<close> builds and returns.\<close>

record collapsed_workflow =
  c_id :: string
  c_state :: WorkflowState
  c_selected_variant :: variant
  c_execution_plan :: "plan_step list"
  c_consciousness_level :: rat
  c_execution_context :: context_dict
  c_collapse_timestamp :: rat

section \<open>Variant catalog, context weights and scoring\<close>

text \<open>Python's \<^verbatim>\<open>d.get(k, default)\<close>.\<close>

definition dict_get :: "('k \<rightharpoonup> 'v) \<Rightarrow> 'k \<Rightarrow> 'v \<Rightarrow> 'v" where
  "dict_get d k dflt = (case d k of None \<Rightarrow> dflt | Some v \<Rightarrow> v)"

text \<open>Python's \<^verbatim>\<open>sub in s\<close> on strings: \<open>sub\<close> occurs in \<open>s\<close> as a contiguous run.\<close>

fun str_contains :: "string \<Rightarrow> string \<Rightarrow> bool" where
  "str_contains sub [] = (sub = [])"
| "str_contains sub (c # cs) = (take (length sub) (c # cs) = sub \<or> str_contains sub cs)"

definition generate_implementation_variants :: "intent_dict \<Rightarrow> variant list" where
  "generate_implementation_variants i =
     [\<lparr>variant_type = ''speed_optimized'',
       characteristics = [''parallel_execution'', ''minimal_validation'', ''cached_results''],
       trade_offs = \<lparr>speed = 95 / 100, reliability = 8 / 10, resource_usage = 9 / 10\<rparr>\<rparr>,
      \<lparr>variant_type = ''reliability_optimized'',
       characteristics = [''comprehensive_validation'', ''redundant_execution'', ''extensive_logging''],
       trade_offs = \<lparr>speed = 7 / 10, reliability = 98 / 100, resource_usage = 6 / 10\<rparr>\<rparr>,
      \<lparr>variant_type = ''learning_optimized'',
       characteristics = [''experimental_paths'', ''a_b_testing'', ''continuous_optimization''],
       trade_offs = \<lparr>speed = 8 / 10, reliability = 85 / 100, resource_usage = 7 / 10\<rparr>\<rparr>,
      \<lparr>variant_type = ''ux_optimized'',
       characteristics = [''intuitive_feedback'', ''proactive_communication'', ''graceful_degradation''],
       trade_offs = \<lparr>speed = 85 / 100, reliability = 9 / 10, resource_usage = 8 / 10\<rparr>\<rparr>]"

definition analyze_execution_context :: "context_dict \<Rightarrow> weights_dict" where
  "analyze_execution_context ctx =
     \<lparr>time_pressure = dict_get ctx ''urgency'' (5 / 10),
      resource_availability = dict_get ctx ''resources'' (8 / 10),
      user_expertise = dict_get ctx ''user_skill_level'' (6 / 10),
      system_load = dict_get ctx ''current_load'' (3 / 10),
      error_tolerance = dict_get ctx ''error_tolerance'' (7 / 10)\<rparr>"

definition calculate_variant_score :: "variant \<Rightarrow> weights_dict \<Rightarrow> intent_dict \<Rightarrow> rat" where
  "calculate_variant_score v w i =
     (let t = trade_offs v;
          score = (speed t * time_pressure w
                   + reliability t * (1 - error_tolerance w)
                   + resource_usage t * resource_availability w) / 3
      in if primary_goal i = ''customer_communication_optimization''
            \<and> str_contains ''ux_optimized'' (variant_type v)
         then score + 1 / 10 else score)"

text \<open>
  Python's \<^verbatim>\<open>xs.sort(key=f, reverse=True)\<close>: descending by key and stable, so that
  elements of equal key keep the order they had in \<open>xs\<close>. CPython reverses the list,
  sorts it ascending with its stable sort, and reverses the result.
\<close>

definition sort_reverse :: "('a \<Rightarrow> 'k::linorder) \<Rightarrow> 'a list \<Rightarrow> 'a list" where
  "sort_reverse f xs = rev (sort_key f (rev xs))"

definition select_optimal_variant :: "workflow \<Rightarrow> context_dict \<Rightarrow> py_error + variant" where
  "select_optimal_variant wfl ctx =
     (let variants = possible_implementations wfl;
          context_weights = analyze_execution_context ctx;
          variant_scores =
            map (\<lambda>v. (calculate_variant_score v context_weights (intent wfl), v)) variants;
          sorted_scores = sort_reverse fst variant_scores
      in case sorted_scores of
           [] \<Rightarrow> Inl IndexError
         | best # _ \<Rightarrow> Inr (snd best))"

section \<open>Evolution tracker\<close>

text \<open>
  The execution result a caller reports, by the keys \<^verbatim>\<open>track_execution\<close> reads:
  \<^verbatim>\<open>duration\<close>, \<^verbatim>\<open>success\<close>, \<^verbatim>\<open>user_satisfaction\<close>, \<^verbatim>\<open>resource_usage\<close>, \<^verbatim>\<open>errors\<close>
  and \<^verbatim>\<open>ai_suggestions\<close>.
\<close>

record execution_result =
  duration :: "rat option"
  success :: "bool option"
  res_user_satisfaction :: "rat option"
  res_resource_usage :: "rat option"
  errors :: "int option"
  ai_suggestions :: "string list option"

record evolution_data =
  timestamp :: rat
  execution_time :: rat
  success_rate :: bool
  user_satisfaction :: rat
  resource_efficiency :: rat
  error_count :: int
  improvement_suggestions :: "string list"

record tracker =
  evolution_history :: "string \<rightharpoonup> evolution_data list"
  fitness_scores :: "string \<rightharpoonup> rat"
  mutation_strategies :: "string \<rightharpoonup> string list"

text \<open>The tracker as \<^verbatim>\<open>__init__\<close> leaves it: three empty dictionaries.\<close>

definition empty_tracker :: tracker where
  "empty_tracker = \<lparr>evolution_history = Map.empty, fitness_scores = Map.empty,
                     mutation_strategies = Map.empty\<rparr>"

text \<open>Python's \<^verbatim>\<open>d.get(k, default)\<close> on a key that is a field of optional value.\<close>

definition get_or :: "'v option \<Rightarrow> 'v \<Rightarrow> 'v" where
  "get_or field dflt = (case field of None \<Rightarrow> dflt | Some v \<Rightarrow> v)"

text \<open>
  \<^verbatim>\<open>history[-10:]\<close> is the last ten elements, or all of them when there are fewer;
  Python's \<^verbatim>\<open>sum\<close> counts \<^verbatim>\<open>True\<close> as 1 and \<^verbatim>\<open>False\<close> as 0.
\<close>

definition calculate_fitness_score :: "tracker \<Rightarrow> string \<Rightarrow> py_error + tracker" where
  "calculate_fitness_score t workflow_id =
     (case evolution_history t workflow_id of
        None \<Rightarrow> Inl (KeyError workflow_id)
      | Some history \<Rightarrow>
          if history = [] then Inr t
          else
            (let recent_executions = drop (length history - 10) history;
                 n = of_nat (length recent_executions);
                 avg_satisfaction = sum_list (map user_satisfaction recent_executions) / n;
                 avg_efficiency = sum_list (map resource_efficiency recent_executions) / n;
                 success_rate_avg =
                   sum_list (map (\<lambda>e. of_bool (success_rate e)) recent_executions) / n;
                 fitness_score = avg_satisfaction * (4 / 10) + avg_efficiency * (3 / 10)
                                 + success_rate_avg * (3 / 10)
             in Inr (t\<lparr>fitness_scores := (fitness_scores t)(workflow_id \<mapsto> fitness_score)\<rparr>)))"

definition suggest_mutations :: "tracker \<Rightarrow> string \<Rightarrow> tracker" where
  "suggest_mutations t workflow_id =
     (let fitness = dict_get (fitness_scores t) workflow_id (5 / 10);
          mutations1 = (if fitness < 7 / 10
                        then [''optimize_execution_order'', ''add_parallel_processing'',
                              ''implement_caching'', ''reduce_validation_overhead'',
                              ''improve_error_handling'']
                        else []);
          mutations2 = (if fitness < 5 / 10
                        then mutations1 @ [''complete_architecture_redesign'',
                                           ''alternative_implementation_strategy'',
                                           ''user_experience_overhaul'',
                                           ''integration_method_change'']
                        else mutations1)
      in t\<lparr>mutation_strategies := (mutation_strategies t)(workflow_id \<mapsto> mutations2)\<rparr>)"

definition make_evolution_data :: "rat \<Rightarrow> execution_result \<Rightarrow> evolution_data" where
  "make_evolution_data now r =
     \<lparr>timestamp = now,
      execution_time = get_or (duration r) 0,
      success_rate = get_or (success r) True,
      user_satisfaction = get_or (res_user_satisfaction r) (8 / 10),
      resource_efficiency = get_or (res_resource_usage r) (7 / 10),
      error_count = get_or (errors r) 0,
      improvement_suggestions = get_or (ai_suggestions r) []\<rparr>"

definition track_execution :: "tracker \<Rightarrow> rat \<Rightarrow> string \<Rightarrow> execution_result \<Rightarrow> py_error + tracker" where
  "track_execution t now workflow_id r =
     (let t1 = (if evolution_history t workflow_id = None
                then t\<lparr>evolution_history := (evolution_history t)(workflow_id \<mapsto> [])\<rparr>
                else t);
          evolution_data = make_evolution_data now r
      in case evolution_history t1 workflow_id of
           None \<Rightarrow> Inl (KeyError workflow_id)
         | Some history \<Rightarrow>
             (let t2 = t1\<lparr>evolution_history :=
                            (evolution_history t1)(workflow_id \<mapsto> history @ [evolution_data])\<rparr>
              in case calculate_fitness_score t2 workflow_id of
                   Inl err \<Rightarrow> Inl err
                 | Inr t3 \<Rightarrow> Inr (suggest_mutations t3 workflow_id)))"

section \<open>Execution plan and collapse\<close>

definition base_steps :: "plan_step list" where
  "base_steps =
     [\<lparr>step = ''initialize'', step_type = ''setup'', consciousness_required = False,
       parallelization = None, thread_count = None, validation_depth = None,
       validation_layers = None, logging_level = None, monitoring = None\<rparr>,
      \<lparr>step = ''validate_inputs'', step_type = ''validation'', consciousness_required = True,
       parallelization = None, thread_count = None, validation_depth = None,
       validation_layers = None, logging_level = None, monitoring = None\<rparr>,
      \<lparr>step = ''execute_core_logic'', step_type = ''execution'', consciousness_required = True,
       parallelization = None, thread_count = None, validation_depth = None,
       validation_layers = None, logging_level = None, monitoring = None\<rparr>,
      \<lparr>step = ''handle_results'', step_type = ''processing'', consciousness_required = True,
       parallelization = None, thread_count = None, validation_depth = None,
       validation_layers = None, logging_level = None, monitoring = None\<rparr>,
      \<lparr>step = ''notify_completion'', step_type = ''communication'', consciousness_required = False,
       parallelization = None, thread_count = None, validation_depth = None,
       validation_layers = None, logging_level = None, monitoring = None\<rparr>]"

text \<open>The body of the loop of \<^verbatim>\<open>_generate_execution_plan\<close>, for one step.\<close>

definition enhance_step :: "variant \<Rightarrow> plan_step \<Rightarrow> plan_step" where
  "enhance_step v s =
     (let s1 = (if ''parallel_execution'' \<in> set (characteristics v) \<and> step_type s = ''execution''
                then s\<lparr>parallelization := Some ''enabled'', thread_count := Some 4\<rparr> else s);
          s2 = (if ''comprehensive_validation'' \<in> set (characteristics v) \<and> step_type s = ''validation''
                then s1\<lparr>validation_depth := Some ''comprehensive'',
                        validation_layers := Some [''syntax'', ''semantic'', ''business_logic'', ''security'']\<rparr>
                else s1)
      in if ''extensive_logging'' \<in> set (characteristics v)
         then s2\<lparr>logging_level := Some ''detailed'', monitoring := Some ''real_time''\<rparr> else s2)"

definition generate_execution_plan :: "variant \<Rightarrow> intent_dict \<Rightarrow> plan_step list" where
  "generate_execution_plan v i = map (enhance_step v) base_steps"

text \<open>Python's \<^verbatim>\<open>workflow.update(collapsed_workflow)\<close>: every key of the second overwrites.\<close>

definition update_workflow :: "workflow \<Rightarrow> collapsed_workflow \<Rightarrow> workflow" where
  "update_workflow wfl cw =
     wfl\<lparr>wf_id := c_id cw,
         state := c_state cw,
         selected_variant := Some (c_selected_variant cw),
         execution_plan := Some (c_execution_plan cw),
         consciousness_level := c_consciousness_level cw,
         execution_context := Some (c_execution_context cw),
         collapse_timestamp := Some (c_collapse_timestamp cw)\<rparr>"

text \<open>
  The engine: the store of workflows and the evolution tracker it owns. Its other
  attributes are not read by the functions modelled here.
\<close>

record engine =
  active_workflows :: "string \<rightharpoonup> workflow"
  evolution_tracker :: tracker

definition collapse_workflow ::
  "engine \<Rightarrow> rat \<Rightarrow> string \<Rightarrow> context_dict \<Rightarrow> py_error + (collapsed_workflow \<times> engine)" where
  "collapse_workflow e now workflow_id execution_ctx =
     (case active_workflows e workflow_id of
        None \<Rightarrow> Inl (ValueError (''Workflow '' @ workflow_id @ '' not found''))
      | Some wfl \<Rightarrow>
          (case select_optimal_variant wfl execution_ctx of
             Inl err \<Rightarrow> Inl err
           | Inr sel \<Rightarrow>
               (let cw = \<lparr>c_id = workflow_id,
                          c_state = COLLAPSED,
                          c_selected_variant = sel,
                          c_execution_plan = generate_execution_plan sel (intent wfl),
                          c_consciousness_level = consciousness_level wfl,
                          c_execution_context = execution_ctx,
                          c_collapse_timestamp = now\<rparr>
                in Inr (cw, e\<lparr>active_workflows :=
                                (active_workflows e)(workflow_id \<mapsto> update_workflow wfl cw)\<rparr>))))"

section \<open>Example inputs\<close>

text \<open>
  The intent that \<^verbatim>\<open>understand_intent\<close> returns for a description whose primary goal is
  extracted as \<open>goal\<close> and that mentions none of "urgent", "problem" and "team".
\<close>

definition understood_intent :: "string \<Rightarrow> intent_dict" where
  "understood_intent goal =
     \<lparr>primary_goal = goal,
      emotional_context = [''urgency'' \<mapsto> 3 / 10, ''stress_level'' \<mapsto> 2 / 10,
                           ''satisfaction_potential'' \<mapsto> 9 / 10, ''collaboration_need'' \<mapsto> 3 / 10],
      hidden_requirements = [''error_handling_with_human_escalation'', ''security_compliance_validation'',
                             ''performance_optimization'', ''user_experience_enhancement'',
                             ''scalability_preparation''],
      optimization_opportunities = [''parallel_execution_opportunities'', ''caching_strategy_implementation'',
                                    ''predictive_pre-execution'', ''intelligent_batching'',
                                    ''adaptive_timing_optimization''],
      user_stress_points = [''manual_repetitive_tasks'', ''context_switching_overhead'',
                            ''error_recovery_complexity'', ''monitoring_and_visibility_gaps'',
                            ''integration_maintenance_burden'']\<rparr>"

text \<open>A freshly created workflow about customer e-mail, and one about general automation.\<close>

definition customer_workflow :: workflow where
  "customer_workflow =
     \<lparr>wf_id = ''qwf_1700000000_17'',
      description = ''answer every customer email'',
      intent = understood_intent ''customer_communication_optimization'',
      state = SUPERPOSITION,
      possible_implementations =
        generate_implementation_variants (understood_intent ''customer_communication_optimization''),
      consciousness_level = 85 / 100,
      user_context = Map.empty,
      creation_timestamp = 1700000000,
      selected_variant = None,
      execution_plan = None,
      execution_context = None,
      collapse_timestamp = None\<rparr>"

definition automation_workflow :: workflow where
  "automation_workflow =
     \<lparr>wf_id = ''qwf_1700000000_42'',
      description = ''file the weekly report'',
      intent = understood_intent ''workflow_automation_enhancement'',
      state = SUPERPOSITION,
      possible_implementations =
        generate_implementation_variants (understood_intent ''workflow_automation_enhancement''),
      consciousness_level = 65 / 100,
      user_context = Map.empty,
      creation_timestamp = 1700000000,
      selected_variant = None,
      execution_plan = None,
      execution_context = None,
      collapse_timestamp = None\<rparr>"

definition automation_engine :: engine where
  "automation_engine = \<lparr>active_workflows = [''qwf_1700000000_42'' \<mapsto> automation_workflow],
                         evolution_tracker = empty_tracker\<rparr>"


text \<open>A variant that is not the user-experience archetype, though its type name ends like it.\<close>

definition not_ux_variant :: variant where
  "not_ux_variant =
     \<lparr>variant_type = ''not_ux_optimized'',
      characteristics = [''batch_execution''],
      trade_offs = \<lparr>speed = 5 / 10, reliability = 5 / 10, resource_usage = 5 / 10\<rparr>\<rparr>"

text \<open>The execution context of the customer-communication scenario.\<close>

definition scenario_context :: context_dict where
  "scenario_context = [''urgency'' \<mapsto> 8 / 10, ''resources'' \<mapsto> 6 / 10, ''user_skill_level'' \<mapsto> 5 / 10,
                       ''current_load'' \<mapsto> 4 / 10, ''error_tolerance'' \<mapsto> 1 / 10]"

text \<open>A context under which every trade-off is weighted by zero, so that all scores tie.\<close>

definition tie_context :: context_dict where
  "tie_context = [''urgency'' \<mapsto> 0, ''resources'' \<mapsto> 0, ''error_tolerance'' \<mapsto> 1]"

text \<open>A context for a second collapse: only reliability carries weight.\<close>

definition reliability_context :: context_dict where
  "reliability_context = [''urgency'' \<mapsto> 0, ''resources'' \<mapsto> 0, ''error_tolerance'' \<mapsto> 0]"

text \<open>A context whose urgency lies outside the unit interval and that lacks every other key.\<close>

definition out_of_range_context :: context_dict where
  "out_of_range_context = [''urgency'' \<mapsto> 5]"

text \<open>
  The engine after a first collapse of the automation workflow at time 100 with an empty
  context, and after a second collapse at time 200.
\<close>

definition engine_after :: "py_error + (collapsed_workflow \<times> engine) \<Rightarrow> engine \<Rightarrow> engine" where
  "engine_after res e = (case res of Inl err \<Rightarrow> e | Inr (cw, e') \<Rightarrow> e')"

text \<open>The automation workflow as the first collapse leaves it in the store.\<close>

definition collapsed_automation_workflow :: workflow where
  "collapsed_automation_workflow =
     automation_workflow
       \<lparr>state := COLLAPSED,
        selected_variant := Some (hd (possible_implementations automation_workflow)),
        execution_plan := Some (generate_execution_plan (hd (possible_implementations automation_workflow))
                                  (intent automation_workflow)),
        execution_context := Some Map.empty,
        collapse_timestamp := Some 100\<rparr>"

definition collapsed_engine :: engine where
  "collapsed_engine =
     engine_after (collapse_workflow automation_engine 100 ''qwf_1700000000_42'' Map.empty)
       automation_engine"

definition recollapsed_engine :: engine where
  "recollapsed_engine =
     engine_after (collapse_workflow collapsed_engine 200 ''qwf_1700000000_42'' reliability_context)
       collapsed_engine"

section \<open>The fitness formula in the words of the specification\<close>

definition mean :: "rat list \<Rightarrow> rat" where
  "mean xs = sum_list xs / of_nat (length xs)"

definition spec_fitness :: "evolution_data list \<Rightarrow> rat" where
  "spec_fitness outcomes =
     4 / 10 * mean (map user_satisfaction outcomes)
     + 3 / 10 * mean (map resource_efficiency outcomes)
     + 3 / 10 * mean (map (\<lambda>e. of_bool (success_rate e)) outcomes)"

text \<open>The \<open>n\<close> most recent elements of a history that grows at its end.\<close>

definition most_recent :: "nat \<Rightarrow> 'a list \<Rightarrow> 'a list" where
  "most_recent n xs = rev (take n (rev xs))"



text \<open>The moderate and the severe remediation tags, as \<^verbatim>\<open>_suggest_mutations\<close> lists them.\<close>

definition moderate_mutations :: "string list" where
  "moderate_mutations =
     [''optimize_execution_order'', ''add_parallel_processing'', ''implement_caching'',
      ''reduce_validation_overhead'', ''improve_error_handling'']"

definition severe_mutations :: "string list" where
  "severe_mutations =
     [''complete_architecture_redesign'', ''alternative_implementation_strategy'',
      ''user_experience_overhaul'', ''integration_method_change'']"

section \<open>Example outcomes\<close>

text \<open>Reporting a list of timed results for one workflow, one call after the other.\<close>

fun track_all :: "tracker \<Rightarrow> string \<Rightarrow> (rat \<times> execution_result) list \<Rightarrow> py_error + tracker" where
  "track_all t workflow_id [] = Inr t"
| "track_all t workflow_id ((now, r) # rs) =
     (case track_execution t now workflow_id r of
        Inl err \<Rightarrow> Inl err
      | Inr t' \<Rightarrow> track_all t' workflow_id rs)"

definition outcome :: "rat \<Rightarrow> rat \<Rightarrow> bool \<Rightarrow> execution_result" where
  "outcome satisfaction efficiency succeeded =
     \<lparr>duration = Some 12, success = Some succeeded, res_user_satisfaction = Some satisfaction,
      res_resource_usage = Some efficiency, errors = Some 0, ai_suggestions = Some []\<rparr>"

definition three_outcomes :: "(rat \<times> execution_result) list" where
  "three_outcomes =
     [(1, outcome (9 / 10) (7 / 10) True),
      (2, outcome (8 / 10) (75 / 100) True),
      (3, outcome (85 / 100) (8 / 10) True)]"

text \<open>What a call of \<^verbatim>\<open>track_execution\<close> left in the three stores for one workflow.\<close>

definition history_of :: "py_error + tracker \<Rightarrow> string \<Rightarrow> evolution_data list option" where
  "history_of res workflow_id = (case res of Inl err \<Rightarrow> None | Inr t \<Rightarrow> evolution_history t workflow_id)"

definition fitness_of :: "py_error + tracker \<Rightarrow> string \<Rightarrow> rat option" where
  "fitness_of res workflow_id = (case res of Inl err \<Rightarrow> None | Inr t \<Rightarrow> fitness_scores t workflow_id)"

definition mutations_of :: "py_error + tracker \<Rightarrow> string \<Rightarrow> string list option" where
  "mutations_of res workflow_id = (case res of Inl err \<Rightarrow> None | Inr t \<Rightarrow> mutation_strategies t workflow_id)"





text \<open>Ten later results, each as good as a result can be.\<close>

definition perfect_outcomes :: "(rat \<times> execution_result) list" where
  "perfect_outcomes =
     [(1, outcome 1 1 True), (2, outcome 1 1 True), (3, outcome 1 1 True), (4, outcome 1 1 True),
      (5, outcome 1 1 True), (6, outcome 1 1 True), (7, outcome 1 1 True), (8, outcome 1 1 True),
      (9, outcome 1 1 True), (10, outcome 1 1 True)]"

text \<open>A result dictionary without any of the keys that are read.\<close>

definition empty_result :: execution_result where
  "empty_result = \<lparr>duration = None, success = None, res_user_satisfaction = None,
                    res_resource_usage = None, errors = None, ai_suggestions = None\<rparr>"

section \<open>The stable descending sort and the selected variant\<close>

lemma last_insort_key:
  "last (insort_key f x xs) = (if \<forall>y\<in>set xs. f y < f x then x else last xs)"
  by (induction xs) (auto simp: not_less)

lemma last_sort_key:
  "xs \<noteq> [] \<Longrightarrow> \<exists>pre post. xs = pre @ last (sort_key f xs) # post
      \<and> (\<forall>u\<in>set pre. f u \<le> f (last (sort_key f xs)))
      \<and> (\<forall>u\<in>set post. f u < f (last (sort_key f xs)))"
proof (induction xs)
  case Nil
  then show ?case by simp
next
  case (Cons x xs)
  show ?case
  proof (cases "\<forall>y\<in>set xs. f y < f x")
    case True
    then have "last (sort_key f (x # xs)) = x"
      by (simp add: last_insort_key)
    with True show ?thesis
      by (intro exI[of _ "[]"] exI[of _ xs]) simp
  next
    case False
    then have ne: "xs \<noteq> []" by auto
    let ?m = "last (sort_key f xs)"
    have "last (sort_key f (x # xs)) = (if \<forall>y\<in>set xs. f y < f x then x else ?m)"
      by (simp add: last_insort_key)
    with False have m: "last (sort_key f (x # xs)) = ?m"
      by (simp only: if_not_P if_False)
    from Cons.IH [OF ne] obtain pre post where
      xs: "xs = pre @ ?m # post" and
      pre: "\<forall>u\<in>set pre. f u \<le> f ?m" and
      post: "\<forall>u\<in>set post. f u < f ?m"
      by blast
    from False obtain y where y: "y \<in> set xs" "f x \<le> f y"
      by (auto simp: not_less)
    have "f y \<le> f ?m"
      using y(1) pre post by (subst (asm) xs) (auto intro: less_imp_le)
    with y(2) have "f x \<le> f ?m" by simp
    with xs pre post m show ?thesis
      by (intro exI[of _ "x # pre"] exI[of _ post]) simp
  qed
qed

text \<open>
  The head of the list sorted as Python does with \<^verbatim>\<open>reverse=True\<close> is the first element
  of the input whose key is maximal: everything before it is strictly smaller.
\<close>

lemma hd_sort_reverse:
  assumes "xs \<noteq> []"
  shows "\<exists>pre post. xs = pre @ hd (sort_reverse f xs) # post
      \<and> (\<forall>u\<in>set pre. f u < f (hd (sort_reverse f xs)))
      \<and> (\<forall>u\<in>set post. f u \<le> f (hd (sort_reverse f xs)))"
proof -
  let ?m = "last (sort_key f (rev xs))"
  have s: "sort_key f (rev xs) \<noteq> []"
    using assms by (metis length_0_conv length_rev length_sort)
  have hd: "hd (sort_reverse f xs) = ?m"
    using s by (simp add: sort_reverse_def hd_rev)
  from assms have "rev xs \<noteq> []" by simp
  from last_sort_key [OF this, of f] obtain pre post where
    r: "rev xs = pre @ ?m # post" and
    pre: "\<forall>u\<in>set pre. f u \<le> f ?m" and
    post: "\<forall>u\<in>set post. f u < f ?m"
    by blast
  from r have "rev (rev xs) = rev (pre @ ?m # post)" by simp
  then have "xs = rev post @ ?m # rev pre" by simp
  with pre post hd show ?thesis
    by (intro exI[of _ "rev post"] exI[of _ "rev pre"]) simp
qed

lemma sort_reverse_Nil_iff: "sort_reverse f xs = [] \<longleftrightarrow> xs = []"
  by (metis length_0_conv length_rev length_sort sort_reverse_def)

lemma select_optimal_variant_first_max:
  assumes "possible_implementations wfl \<noteq> []"
  shows "\<exists>v pre post. select_optimal_variant wfl ctx = Inr v
      \<and> possible_implementations wfl = pre @ v # post
      \<and> (\<forall>u\<in>set pre. calculate_variant_score u (analyze_execution_context ctx) (intent wfl)
                        < calculate_variant_score v (analyze_execution_context ctx) (intent wfl))
      \<and> (\<forall>u\<in>set post. calculate_variant_score u (analyze_execution_context ctx) (intent wfl)
                        \<le> calculate_variant_score v (analyze_execution_context ctx) (intent wfl))"
proof -
  let ?sc = "\<lambda>v. calculate_variant_score v (analyze_execution_context ctx) (intent wfl)"
  let ?vs = "map (\<lambda>v. (?sc v, v)) (possible_implementations wfl)"
  let ?b = "hd (sort_reverse fst ?vs)"
  from assms have ne: "?vs \<noteq> []" by simp
  then have "sort_reverse fst ?vs \<noteq> []" by (simp add: sort_reverse_Nil_iff)
  then have sel: "select_optimal_variant wfl ctx = Inr (snd ?b)"
    by (simp add: select_optimal_variant_def Let_def split: list.splits)
  from hd_sort_reverse [OF ne, of fst] obtain pre post where
    vs: "?vs = pre @ ?b # post" and
    pre: "\<forall>u\<in>set pre. fst u < fst ?b" and
    post: "\<forall>u\<in>set post. fst u \<le> fst ?b"
    by blast
  from vs obtain us v ws where
    xs: "possible_implementations wfl = us @ v # ws" and
    us: "pre = map (\<lambda>v. (?sc v, v)) us" and
    b: "?b = (?sc v, v)" and
    ws: "post = map (\<lambda>v. (?sc v, v)) ws"
    by (auto simp: map_eq_append_conv map_eq_Cons_conv)
  from pre us b have "\<forall>u\<in>set us. ?sc u < ?sc v" by simp
  moreover from post ws b have "\<forall>u\<in>set ws. ?sc u \<le> ?sc v" by simp
  moreover from sel b have "select_optimal_variant wfl ctx = Inr v" by simp
  ultimately show ?thesis using xs by blast
qed

lemma select_optimal_variant_empty:
  "possible_implementations wfl = [] \<Longrightarrow> select_optimal_variant wfl ctx = Inl IndexError"
  by (simp add: select_optimal_variant_def sort_reverse_def)

section \<open>Scoring and selection\<close>

lemma str_contains_iff: "str_contains sub s \<longleftrightarrow> (\<exists>pre post. s = pre @ sub @ post)"
proof (induction s)
  case Nil
  then show ?case by auto
next
  case (Cons c cs)
  show ?case
  proof
    assume "str_contains sub (c # cs)"
    then consider "take (length sub) (c # cs) = sub" | "str_contains sub cs" by auto
    then show "\<exists>pre post. c # cs = pre @ sub @ post"
    proof cases
      case 1
      have "c # cs = take (length sub) (c # cs) @ drop (length sub) (c # cs)"
        by (simp only: append_take_drop_id)
      with 1 have "c # cs = [] @ sub @ drop (length sub) (c # cs)" by simp
      then show ?thesis by blast
    next
      case 2
      with Cons.IH obtain pre post where "cs = pre @ sub @ post" by blast
      then have "c # cs = (c # pre) @ sub @ post" by simp
      then show ?thesis by blast
    qed
  next
    assume "\<exists>pre post. c # cs = pre @ sub @ post"
    then obtain pre post where eq: "c # cs = pre @ sub @ post" by blast
    show "str_contains sub (c # cs)"
    proof (cases pre)
      case Nil
      with eq have "take (length sub) (c # cs) = sub" by simp
      then show ?thesis by simp
    next
      case (Cons p pre')
      with eq have "cs = pre' @ sub @ post" by simp
      with Cons.IH have "str_contains sub cs" by blast
      then show ?thesis by simp
    qed
  qed
qed

text \<open>
  Claim C2, as the code has it. The claim gives the bonus when the type of the variant
  is the user-experience-optimized archetype. The code tests whether the tag
  \<^verbatim>\<open>ux_optimized\<close> occurs anywhere in the type name. For every variant, every weight
  vector and every intent, the score is the mean of speed times time pressure,
  reliability times (1 - error tolerance) and resource usage times resource
  availability, plus exactly 0.1 when the type name contains \<^verbatim>\<open>ux_optimized\<close> as a
  contiguous run of characters and the primary goal of the intent is customer
  communication, and plus nothing otherwise. Among the variants of the catalog only the
  one whose type is \<^verbatim>\<open>ux_optimized\<close> contains the tag.
\<close>

theorem calculate_variant_score_formula:
  "calculate_variant_score v w i =
     (speed (trade_offs v) * time_pressure w
      + reliability (trade_offs v) * (1 - error_tolerance w)
      + resource_usage (trade_offs v) * resource_availability w) / 3
     + (if (\<exists>pre post. variant_type v = pre @ ''ux_optimized'' @ post)
           \<and> primary_goal i = ''customer_communication_optimization''
        then 1 / 10 else 0)
   \<and> (\<forall>u\<in>set (generate_implementation_variants i).
         (\<exists>pre post. variant_type u = pre @ ''ux_optimized'' @ post)
         = (variant_type u = ''ux_optimized''))"
  unfolding str_contains_iff [symmetric]
  by (simp add: calculate_variant_score_def Let_def generate_implementation_variants_def)

theorem calculate_variant_score_formula_witness:
  "calculate_variant_score
     (generate_implementation_variants (understood_intent ''customer_communication_optimization'') ! 3)
     (analyze_execution_context scenario_context)
     (understood_intent ''customer_communication_optimization'')
   = 227 / 300
   \<and> calculate_variant_score
     (generate_implementation_variants (understood_intent ''customer_communication_optimization'') ! 1)
     (analyze_execution_context scenario_context)
     (understood_intent ''customer_communication_optimization'')
   = 901 / 1500"
  using calculate_variant_score_formula
    [of "generate_implementation_variants (understood_intent ''customer_communication_optimization'') ! 3"
        "analyze_execution_context scenario_context"
        "understood_intent ''customer_communication_optimization''",
     unfolded str_contains_iff [symmetric]]
    calculate_variant_score_formula
    [of "generate_implementation_variants (understood_intent ''customer_communication_optimization'') ! 1"
        "analyze_execution_context scenario_context"
        "understood_intent ''customer_communication_optimization''",
     unfolded str_contains_iff [symmetric]]
  by (simp add: generate_implementation_variants_def analyze_execution_context_def
        scenario_context_def understood_intent_def dict_get_def)

text \<open>
  A variant of type \<^verbatim>\<open>not_ux_optimized\<close>, which is not the archetype, under the weights
  of the customer-communication scenario: the mean of the three products is 23/60, and
  the score is a tenth more.
\<close>

theorem archetype_bonus_counterexample:
  "variant_type not_ux_variant = ''not_ux_optimized''
   \<and> variant_type not_ux_variant \<noteq> ''ux_optimized''
   \<and> primary_goal (understood_intent ''customer_communication_optimization'')
       = ''customer_communication_optimization''
   \<and> (speed (trade_offs not_ux_variant) * time_pressure (analyze_execution_context scenario_context)
       + reliability (trade_offs not_ux_variant)
           * (1 - error_tolerance (analyze_execution_context scenario_context))
       + resource_usage (trade_offs not_ux_variant)
           * resource_availability (analyze_execution_context scenario_context)) / 3
      = 23 / 60
   \<and> calculate_variant_score not_ux_variant (analyze_execution_context scenario_context)
        (understood_intent ''customer_communication_optimization'')
      = 23 / 60 + 1 / 10"
  by (simp add: not_ux_variant_def calculate_variant_score_def Let_def analyze_execution_context_def
        scenario_context_def understood_intent_def dict_get_def)

text \<open>
  Claim C3. For the standard catalog of four variants, an intent whose primary goal is
  customer communication, and the weights time pressure 0.8, resource availability 0.6,
  user expertise 0.5, system load 0.4 and error tolerance 0.1, the selector returns the
  user-experience-optimized variant, whose score exceeds that of every other variant.
\<close>

theorem select_customer_communication_scenario:
  assumes "possible_implementations wfl = generate_implementation_variants (intent wfl)"
      and "primary_goal (intent wfl) = ''customer_communication_optimization''"
      and "analyze_execution_context ctx =
             \<lparr>time_pressure = 8 / 10, resource_availability = 6 / 10, user_expertise = 5 / 10,
              system_load = 4 / 10, error_tolerance = 1 / 10\<rparr>"
  shows "\<exists>v. select_optimal_variant wfl ctx = Inr v
           \<and> variant_type v = ''ux_optimized''
           \<and> v \<in> set (possible_implementations wfl)
           \<and> (\<forall>u\<in>set (possible_implementations wfl). u \<noteq> v \<longrightarrow>
                 calculate_variant_score u (analyze_execution_context ctx) (intent wfl)
                 < calculate_variant_score v (analyze_execution_context ctx) (intent wfl))"
  using assms
  by (simp add: select_optimal_variant_def Let_def generate_implementation_variants_def
        sort_reverse_def calculate_variant_score_def)

theorem select_customer_communication_scenario_witness:
  "possible_implementations customer_workflow
     = generate_implementation_variants (intent customer_workflow)
   \<and> primary_goal (intent customer_workflow) = ''customer_communication_optimization''
   \<and> analyze_execution_context scenario_context =
             \<lparr>time_pressure = 8 / 10, resource_availability = 6 / 10, user_expertise = 5 / 10,
              system_load = 4 / 10, error_tolerance = 1 / 10\<rparr>
   \<and> map_sum id variant_type (select_optimal_variant customer_workflow scenario_context)
       = Inr ''ux_optimized''"
proof -
  have h1: "possible_implementations customer_workflow
              = generate_implementation_variants (intent customer_workflow)"
    by (simp add: customer_workflow_def)
  have h2: "primary_goal (intent customer_workflow) = ''customer_communication_optimization''"
    by (simp add: customer_workflow_def understood_intent_def)
  have h3: "analyze_execution_context scenario_context =
             \<lparr>time_pressure = 8 / 10, resource_availability = 6 / 10, user_expertise = 5 / 10,
              system_load = 4 / 10, error_tolerance = 1 / 10\<rparr>"
    by (simp add: analyze_execution_context_def scenario_context_def dict_get_def)
  from select_customer_communication_scenario [OF h1 h2 h3] h1 h2 h3 show ?thesis
    by auto
qed

text \<open>
  Claim C4, as the code has it. The claim says that among the variants of maximal score
  the one with the lexicographically smallest type name is returned. The sort of the
  selector compares scores only and is stable, so the variant returned is the one of
  maximal score that comes first in the list of variants: every variant before it scores
  strictly less, every variant after it scores at most as much.
\<close>

theorem select_first_maximal:
  assumes "possible_implementations wfl \<noteq> []"
  shows "\<exists>v pre post. select_optimal_variant wfl ctx = Inr v
      \<and> possible_implementations wfl = pre @ v # post
      \<and> (\<forall>u\<in>set pre. calculate_variant_score u (analyze_execution_context ctx) (intent wfl)
                        < calculate_variant_score v (analyze_execution_context ctx) (intent wfl))
      \<and> (\<forall>u\<in>set post. calculate_variant_score u (analyze_execution_context ctx) (intent wfl)
                        \<le> calculate_variant_score v (analyze_execution_context ctx) (intent wfl))"
  using assms by (rule select_optimal_variant_first_max)

theorem select_first_maximal_witness:
  "possible_implementations automation_workflow \<noteq> []
   \<and> (\<exists>v pre post. select_optimal_variant automation_workflow tie_context = Inr v
      \<and> possible_implementations automation_workflow = pre @ v # post
      \<and> (\<forall>u\<in>set pre.
            calculate_variant_score u (analyze_execution_context tie_context) (intent automation_workflow)
            < calculate_variant_score v (analyze_execution_context tie_context) (intent automation_workflow))
      \<and> (\<forall>u\<in>set post.
            calculate_variant_score u (analyze_execution_context tie_context) (intent automation_workflow)
            \<le> calculate_variant_score v (analyze_execution_context tie_context) (intent automation_workflow)))"
proof -
  have h: "possible_implementations automation_workflow \<noteq> []"
    by (simp add: automation_workflow_def generate_implementation_variants_def)
  from select_first_maximal [OF h, of tie_context] h show ?thesis by blast
qed

text \<open>
  Under a context that weights every trade-off by zero the four catalog variants all
  score 0; the selector returns the speed-optimized variant, the first of the list,
  although the type name of the learning-optimized variant is smaller.
\<close>

theorem tie_break_lexicographic_counterexample:
  "map_sum id variant_type (select_optimal_variant automation_workflow tie_context)
     = Inr ''speed_optimized''
   \<and> map variant_type (possible_implementations automation_workflow)
       = [''speed_optimized'', ''reliability_optimized'', ''learning_optimized'', ''ux_optimized'']
   \<and> calculate_variant_score (possible_implementations automation_workflow ! 0)
        (analyze_execution_context tie_context) (intent automation_workflow) = 0
   \<and> calculate_variant_score (possible_implementations automation_workflow ! 1)
        (analyze_execution_context tie_context) (intent automation_workflow) = 0
   \<and> calculate_variant_score (possible_implementations automation_workflow ! 2)
        (analyze_execution_context tie_context) (intent automation_workflow) = 0
   \<and> calculate_variant_score (possible_implementations automation_workflow ! 3)
        (analyze_execution_context tie_context) (intent automation_workflow) = 0
   \<and> ''learning_optimized'' < ''speed_optimized''"
  by (simp add: select_optimal_variant_def Let_def generate_implementation_variants_def
        sort_reverse_def calculate_variant_score_def automation_workflow_def understood_intent_def
        analyze_execution_context_def tie_context_def dict_get_def)

section \<open>Collapse\<close>

lemma collapse_workflow_present:
  assumes "active_workflows e wid = Some wfl" and "possible_implementations wfl \<noteq> []"
  shows "\<exists>v. select_optimal_variant wfl ctx = Inr v
     \<and> collapse_workflow e now wid ctx =
         Inr (\<lparr>c_id = wid, c_state = COLLAPSED, c_selected_variant = v,
               c_execution_plan = generate_execution_plan v (intent wfl),
               c_consciousness_level = consciousness_level wfl,
               c_execution_context = ctx, c_collapse_timestamp = now\<rparr>,
              e\<lparr>active_workflows := (active_workflows e)(wid \<mapsto>
                   wfl\<lparr>wf_id := wid, state := COLLAPSED, selected_variant := Some v,
                       execution_plan := Some (generate_execution_plan v (intent wfl)),
                       execution_context := Some ctx, collapse_timestamp := Some now\<rparr>)\<rparr>)"
proof -
  from select_optimal_variant_first_max [OF assms(2), of ctx]
  obtain v where "select_optimal_variant wfl ctx = Inr v" by blast
  with assms(1) show ?thesis
    by (simp add: collapse_workflow_def update_workflow_def Let_def)
qed

lemma collapsed_engine_eq:
  "active_workflows collapsed_engine ''qwf_1700000000_42'' = Some collapsed_automation_workflow"
  by (simp add: collapsed_engine_def engine_after_def collapse_workflow_def automation_engine_def
        select_optimal_variant_def Let_def generate_implementation_variants_def sort_reverse_def
        calculate_variant_score_def automation_workflow_def understood_intent_def
        analyze_execution_context_def dict_get_def update_workflow_def
        collapsed_automation_workflow_def)

text \<open>
  Claim C1, as the code has it. The claim says that collapsing a workflow that is already
  collapsed fails with an invalid-transition error and leaves the stored workflow as it
  was. \<^verbatim>\<open>collapse_workflow\<close> never reads the lifecycle state: for every stored workflow
  with at least one variant, whatever its state, the call succeeds, selects a variant for
  the new context, and overwrites the stored state, selected variant, execution plan,
  execution context and collapse timestamp.
\<close>

theorem collapse_overwrites:
  assumes "active_workflows e wid = Some wfl" and "possible_implementations wfl \<noteq> []"
  shows "\<exists>cw e' wfl'. collapse_workflow e now wid ctx = Inr (cw, e')
     \<and> active_workflows e' wid = Some wfl'
     \<and> select_optimal_variant wfl ctx = Inr (c_selected_variant cw)
     \<and> state wfl' = COLLAPSED
     \<and> selected_variant wfl' = Some (c_selected_variant cw)
     \<and> execution_plan wfl' = Some (generate_execution_plan (c_selected_variant cw) (intent wfl))
     \<and> execution_context wfl' = Some ctx
     \<and> collapse_timestamp wfl' = Some now"
proof -
  from collapse_workflow_present [OF assms, of ctx now]
  obtain v where "select_optimal_variant wfl ctx = Inr v"
    and "collapse_workflow e now wid ctx =
         Inr (\<lparr>c_id = wid, c_state = COLLAPSED, c_selected_variant = v,
               c_execution_plan = generate_execution_plan v (intent wfl),
               c_consciousness_level = consciousness_level wfl,
               c_execution_context = ctx, c_collapse_timestamp = now\<rparr>,
              e\<lparr>active_workflows := (active_workflows e)(wid \<mapsto>
                   wfl\<lparr>wf_id := wid, state := COLLAPSED, selected_variant := Some v,
                       execution_plan := Some (generate_execution_plan v (intent wfl)),
                       execution_context := Some ctx, collapse_timestamp := Some now\<rparr>)\<rparr>)"
    by blast
  then show ?thesis by simp
qed

theorem collapse_overwrites_witness:
  "active_workflows collapsed_engine ''qwf_1700000000_42'' = Some collapsed_automation_workflow
   \<and> state collapsed_automation_workflow = COLLAPSED
   \<and> possible_implementations collapsed_automation_workflow \<noteq> []
   \<and> (\<exists>cw e' wfl'.
         collapse_workflow collapsed_engine 200 ''qwf_1700000000_42'' reliability_context = Inr (cw, e')
       \<and> active_workflows e' ''qwf_1700000000_42'' = Some wfl'
       \<and> select_optimal_variant collapsed_automation_workflow reliability_context
           = Inr (c_selected_variant cw)
       \<and> state wfl' = COLLAPSED
       \<and> selected_variant wfl' = Some (c_selected_variant cw)
       \<and> execution_plan wfl'
           = Some (generate_execution_plan (c_selected_variant cw) (intent collapsed_automation_workflow))
       \<and> execution_context wfl' = Some reliability_context
       \<and> collapse_timestamp wfl' = Some 200)"
proof -
  have h1: "active_workflows collapsed_engine ''qwf_1700000000_42'' = Some collapsed_automation_workflow"
    by (rule collapsed_engine_eq)
  have h2: "possible_implementations collapsed_automation_workflow \<noteq> []"
    by (simp add: collapsed_automation_workflow_def automation_workflow_def
          generate_implementation_variants_def)
  have h3: "state collapsed_automation_workflow = COLLAPSED"
    by (simp add: collapsed_automation_workflow_def)
  from collapse_overwrites [OF h1 h2, where ctx = reliability_context and now = 200] h1 h2 h3 show ?thesis
    by blast
qed

text \<open>
  The automation workflow is collapsed at time 100 with an empty context, which selects
  the speed-optimized variant. A second collapse at time 200 under a context that
  weights reliability alone returns a result instead of failing, and the stored
  selection and timestamp are replaced.
\<close>

theorem recollapse_counterexample:
  "map_option state (active_workflows collapsed_engine ''qwf_1700000000_42'') = Some COLLAPSED
   \<and> map_option collapse_timestamp (active_workflows collapsed_engine ''qwf_1700000000_42'') = Some (Some 100)
   \<and> map_option (map_option variant_type \<circ> selected_variant)
        (active_workflows collapsed_engine ''qwf_1700000000_42'') = Some (Some ''speed_optimized'')
   \<and> map_sum id (variant_type \<circ> c_selected_variant \<circ> fst)
        (collapse_workflow collapsed_engine 200 ''qwf_1700000000_42'' reliability_context)
       = Inr ''reliability_optimized''
   \<and> map_option state (active_workflows recollapsed_engine ''qwf_1700000000_42'') = Some COLLAPSED
   \<and> map_option collapse_timestamp (active_workflows recollapsed_engine ''qwf_1700000000_42'') = Some (Some 200)
   \<and> map_option (map_option variant_type \<circ> selected_variant)
        (active_workflows recollapsed_engine ''qwf_1700000000_42'') = Some (Some ''reliability_optimized'')"
  by (simp add: recollapsed_engine_def reliability_context_def collapsed_engine_def engine_after_def collapse_workflow_def automation_engine_def
      select_optimal_variant_def Let_def generate_implementation_variants_def
        sort_reverse_def calculate_variant_score_def automation_workflow_def understood_intent_def
        analyze_execution_context_def dict_get_def update_workflow_def)

section \<open>Context weights\<close>

text \<open>
  Claim C5, as the code has it. The claim says that turning an execution context into
  the weight vector fails with an invalid-context error when a supplied value lies
  outside [0,1] or a required key is absent. \<^verbatim>\<open>_analyze_execution_context\<close> validates
  nothing and cannot fail: every supplied value passes through unchanged, in range or
  not, every absent key takes its fallback (urgency 0.5, resources 0.8, user skill level
  0.6, current load 0.3, error tolerance 0.7), and no context makes the collapse of a
  stored workflow with at least one variant fail.
\<close>

theorem context_passthrough:
  "time_pressure (analyze_execution_context ctx) = (case ctx ''urgency'' of None \<Rightarrow> 5 / 10 | Some x \<Rightarrow> x)
   \<and> resource_availability (analyze_execution_context ctx) = (case ctx ''resources'' of None \<Rightarrow> 8 / 10 | Some x \<Rightarrow> x)
   \<and> user_expertise (analyze_execution_context ctx) = (case ctx ''user_skill_level'' of None \<Rightarrow> 6 / 10 | Some x \<Rightarrow> x)
   \<and> system_load (analyze_execution_context ctx) = (case ctx ''current_load'' of None \<Rightarrow> 3 / 10 | Some x \<Rightarrow> x)
   \<and> error_tolerance (analyze_execution_context ctx) = (case ctx ''error_tolerance'' of None \<Rightarrow> 7 / 10 | Some x \<Rightarrow> x)
   \<and> (\<forall>e now wid wfl. active_workflows e wid = Some wfl \<and> possible_implementations wfl \<noteq> []
          \<longrightarrow> \<not> isl (collapse_workflow e now wid ctx))"
proof -
  have "\<not> isl (collapse_workflow e now wid ctx)"
    if "active_workflows e wid = Some wfl" "possible_implementations wfl \<noteq> []" for e now wid wfl
    using collapse_workflow_present [OF that, of ctx now] by auto
  then show ?thesis
    by (simp add: analyze_execution_context_def dict_get_def split: option.splits)
qed

theorem context_passthrough_witness:
  "active_workflows automation_engine ''qwf_1700000000_42'' = Some automation_workflow
   \<and> possible_implementations automation_workflow \<noteq> []
   \<and> \<not> isl (collapse_workflow automation_engine 100 ''qwf_1700000000_42'' out_of_range_context)
   \<and> time_pressure (analyze_execution_context out_of_range_context) = 5
   \<and> error_tolerance (analyze_execution_context out_of_range_context) = 7 / 10"
proof -
  have h1: "active_workflows automation_engine ''qwf_1700000000_42'' = Some automation_workflow"
    by (simp add: automation_engine_def)
  have h2: "possible_implementations automation_workflow \<noteq> []"
    by (simp add: automation_workflow_def generate_implementation_variants_def)
  from context_passthrough [of out_of_range_context] h1 h2 show ?thesis
    by (auto simp: out_of_range_context_def)
qed

text \<open>
  A context whose urgency is 5 and that has no other key is turned into weights, with
  the 5 kept and the fallbacks filled in, and the collapse under it succeeds.
\<close>

theorem invalid_context_counterexample:
  "analyze_execution_context out_of_range_context =
     \<lparr>time_pressure = 5, resource_availability = 8 / 10, user_expertise = 6 / 10,
      system_load = 3 / 10, error_tolerance = 7 / 10\<rparr>
   \<and> map_sum id (variant_type \<circ> c_selected_variant \<circ> fst)
        (collapse_workflow automation_engine 100 ''qwf_1700000000_42'' out_of_range_context)
       = Inr ''speed_optimized''"
  by (simp add: out_of_range_context_def collapse_workflow_def automation_engine_def
      select_optimal_variant_def Let_def generate_implementation_variants_def
        sort_reverse_def calculate_variant_score_def automation_workflow_def understood_intent_def
        analyze_execution_context_def dict_get_def update_workflow_def)

section \<open>Fitness and mutation suggestions\<close>

lemma most_recent_drop: "most_recent (min 10 (length xs)) xs = drop (length xs - 10) xs"
  by (simp add: most_recent_def take_rev min_def)

lemma most_recent_suffix:
  "length (most_recent (min n (length xs)) xs) = min n (length xs)
   \<and> (\<exists>older. xs = older @ most_recent (min n (length xs)) xs)"
proof -
  have "most_recent (min n (length xs)) xs = drop (length xs - n) xs"
    by (simp add: most_recent_def take_rev min_def)
  moreover have "xs = take (length xs - n) xs @ drop (length xs - n) xs" by simp
  ultimately show ?thesis by (auto simp del: append_take_drop_id)
qed

lemma calculate_fitness_score_eq:
  assumes "evolution_history t wid = Some h" and "h \<noteq> []"
  shows "calculate_fitness_score t wid =
           Inr (t\<lparr>fitness_scores := (fitness_scores t)(wid \<mapsto>
                    spec_fitness (most_recent (min 10 (length h)) h))\<rparr>)"
  using assms
  by (simp add: calculate_fitness_score_def Let_def most_recent_drop spec_fitness_def mean_def
        mult.commute)

lemma track_execution_result:
  fixes t now wid r
  defines "h \<equiv> dict_get (evolution_history t) wid [] @ [make_evolution_data now r]"
  defines "f \<equiv> spec_fitness (most_recent (min 10 (length h)) h)"
  shows "track_execution t now wid r =
     Inr (t\<lparr>evolution_history := (evolution_history t)(wid \<mapsto> h),
            fitness_scores := (fitness_scores t)(wid \<mapsto> f),
            mutation_strategies := (mutation_strategies t)(wid \<mapsto>
              (if f < 7 / 10 then moderate_mutations else [])
              @ (if f < 5 / 10 then severe_mutations else []))\<rparr>)"
proof -
  let ?t2 = "t\<lparr>evolution_history := (evolution_history t)(wid \<mapsto> h)\<rparr>"
  have h2: "evolution_history ?t2 wid = Some h" by simp
  have ne: "h \<noteq> []" by (simp add: h_def)
  have c: "calculate_fitness_score ?t2 wid =
             Inr (?t2\<lparr>fitness_scores := (fitness_scores ?t2)(wid \<mapsto> f)\<rparr>)"
    unfolding f_def by (rule calculate_fitness_score_eq [OF h2 ne])
  show ?thesis
  proof (cases "evolution_history t wid")
    case None
    then have "h = [make_evolution_data now r]" by (simp add: h_def dict_get_def)
    with None c show ?thesis
      by (simp add: track_execution_def Let_def suggest_mutations_def dict_get_def
            moderate_mutations_def severe_mutations_def)
  next
    case (Some old)
    then have "h = old @ [make_evolution_data now r]" by (simp add: h_def dict_get_def)
    with Some c show ?thesis
      by (simp add: track_execution_def Let_def suggest_mutations_def dict_get_def
            moderate_mutations_def severe_mutations_def)
  qed
qed











lemma make_evolution_data_eq:
  "make_evolution_data now r =
     \<lparr>timestamp = now,
      execution_time = (case duration r of None \<Rightarrow> 0 | Some x \<Rightarrow> x),
      success_rate = (case success r of None \<Rightarrow> True | Some x \<Rightarrow> x),
      user_satisfaction = (case res_user_satisfaction r of None \<Rightarrow> 8 / 10 | Some x \<Rightarrow> x),
      resource_efficiency = (case res_resource_usage r of None \<Rightarrow> 7 / 10 | Some x \<Rightarrow> x),
      error_count = (case errors r of None \<Rightarrow> 0 | Some x \<Rightarrow> x),
      improvement_suggestions = (case ai_suggestions r of None \<Rightarrow> [] | Some x \<Rightarrow> x)\<rparr>"
  by (simp add: make_evolution_data_def get_or_def split: option.splits)

lemma dict_get_history:
  "dict_get (evolution_history t) wid [] = (case evolution_history t wid of None \<Rightarrow> [] | Some old \<Rightarrow> old)"
  by (simp add: dict_get_def)

text \<open>
  Claim C6. For every workflow, \<^verbatim>\<open>track_execution\<close> appends the reported outcome (its
  duration, success, satisfaction, efficiency, error count and suggestions, stamped with
  the time of the call) to the history of the workflow and then sets the fitness score
  to 0.4 times the average user satisfaction plus 0.3 times the average resource
  efficiency plus 0.3 times the average success, taken over the most recent
  min(10, length) outcomes of the new history. For the three outcomes with satisfactions
  0.9, 0.8, 0.85, efficiencies 0.7, 0.75, 0.8 and three successes the fitness is 0.865
  and the list of mutation suggestions is empty.
\<close>

theorem record_outcome_fitness:
  fixes t now wid r
  defines "d \<equiv> \<lparr>timestamp = now,
      execution_time = (case duration r of None \<Rightarrow> 0 | Some x \<Rightarrow> x),
      success_rate = (case success r of None \<Rightarrow> True | Some x \<Rightarrow> x),
      user_satisfaction = (case res_user_satisfaction r of None \<Rightarrow> 8 / 10 | Some x \<Rightarrow> x),
      resource_efficiency = (case res_resource_usage r of None \<Rightarrow> 7 / 10 | Some x \<Rightarrow> x),
      error_count = (case errors r of None \<Rightarrow> 0 | Some x \<Rightarrow> x),
      improvement_suggestions = (case ai_suggestions r of None \<Rightarrow> [] | Some x \<Rightarrow> x)\<rparr>"
  defines "h \<equiv> (case evolution_history t wid of None \<Rightarrow> [] | Some old \<Rightarrow> old) @ [d]"
  defines "recent \<equiv> most_recent (min 10 (length h)) h"
  shows "(\<exists>t'. track_execution t now wid r = Inr t'
           \<and> evolution_history t' wid = Some h
           \<and> fitness_scores t' wid = Some (spec_fitness recent)
           \<and> fitness_scores t' wid =
               Some (4 / 10 * (sum_list (map user_satisfaction recent) / of_nat (length recent))
                     + 3 / 10 * (sum_list (map resource_efficiency recent) / of_nat (length recent))
                     + 3 / 10 * (sum_list (map (\<lambda>e. if success_rate e then 1 else 0) recent)
                                 / of_nat (length recent))))
       \<and> length recent = min 10 (length h)
       \<and> (\<exists>older. h = older @ recent)
       \<and> fitness_of (track_all empty_tracker wid three_outcomes) wid = Some (865 / 1000)
       \<and> mutations_of (track_all empty_tracker wid three_outcomes) wid = Some []"
proof -
  have h: "h = dict_get (evolution_history t) wid [] @ [make_evolution_data now r]"
    unfolding h_def d_def by (simp only: make_evolution_data_eq dict_get_history)
  have sf: "spec_fitness recent =
      4 / 10 * (sum_list (map user_satisfaction recent) / of_nat (length recent))
      + 3 / 10 * (sum_list (map resource_efficiency recent) / of_nat (length recent))
      + 3 / 10 * (sum_list (map (\<lambda>e. if success_rate e then 1 else 0) recent)
                  / of_nat (length recent))"
    by (simp add: spec_fitness_def mean_def of_bool_def)
  have a: "\<exists>t'. track_execution t now wid r = Inr t'
           \<and> evolution_history t' wid = Some h
           \<and> fitness_scores t' wid = Some (spec_fitness recent)"
    unfolding h recent_def by (simp add: track_execution_result)
  have b: "length recent = min 10 (length h) \<and> (\<exists>older. h = older @ recent)"
    unfolding recent_def by (rule most_recent_suffix)
  have c: "fitness_of (track_all empty_tracker wid three_outcomes) wid = Some (865 / 1000)"
    by (simp add: three_outcomes_def outcome_def track_execution_def Let_def empty_tracker_def
          make_evolution_data_def get_or_def calculate_fitness_score_def suggest_mutations_def
          dict_get_def fitness_of_def)
  have d: "mutations_of (track_all empty_tracker wid three_outcomes) wid = Some []"
    by (simp add: three_outcomes_def outcome_def track_execution_def Let_def empty_tracker_def
          make_evolution_data_def get_or_def calculate_fitness_score_def suggest_mutations_def
          dict_get_def mutations_of_def)
  from a sf b c d show ?thesis by auto
qed








lemma track_all_result:
  assumes "evolution_history t wid = Some h" and "h \<noteq> []"
      and "fitness_scores t wid = Some (spec_fitness (most_recent (min 10 (length h)) h))"
  shows "\<exists>t2. track_all t wid rs = Inr t2
      \<and> evolution_history t2 wid = Some (h @ map (\<lambda>(n, x). make_evolution_data n x) rs)
      \<and> fitness_scores t2 wid =
          Some (spec_fitness
                  (most_recent (min 10 (length (h @ map (\<lambda>(n, x). make_evolution_data n x) rs)))
                     (h @ map (\<lambda>(n, x). make_evolution_data n x) rs)))"
  using assms
proof (induction rs arbitrary: t h)
  case Nil
  then show ?case by simp
next
  case (Cons p rs)
  obtain n x where p: "p = (n, x)" by (cases p)
  let ?h = "h @ [make_evolution_data n x]"
  let ?f = "spec_fitness (most_recent (min 10 (length ?h)) ?h)"
  let ?t1 = "t\<lparr>evolution_history := (evolution_history t)(wid \<mapsto> ?h),
            fitness_scores := (fitness_scores t)(wid \<mapsto> ?f),
            mutation_strategies := (mutation_strategies t)(wid \<mapsto>
              (if ?f < 7 / 10 then moderate_mutations else [])
              @ (if ?f < 5 / 10 then severe_mutations else []))\<rparr>"
  have step: "track_execution t n wid x = Inr ?t1"
    using Cons.prems(1) by (simp add: track_execution_result dict_get_def)
  have h1: "evolution_history ?t1 wid = Some ?h" by simp
  have h2: "?h \<noteq> []" by simp
  have h3: "fitness_scores ?t1 wid = Some ?f" by simp
  from Cons.IH [OF h1 h2 h3] step p show ?case by simp
qed

lemma in_most_recent:
  assumes "length post < 10"
  shows "d \<in> set (most_recent (min 10 (length (old @ d # post))) (old @ d # post))"
proof -
  have le: "length (old @ d # post) - 10 \<le> length old" using assms by simp
  have "drop (length (old @ d # post) - 10) (old @ d # post)
          = drop (length (old @ d # post) - 10) old @ d # post"
    using le by simp
  then show ?thesis by (simp only: most_recent_drop) simp
qed

text \<open>
  Claim C10, as the code has it. The claim says that the defaulted values enter all
  subsequent fitness computations. The fitness is computed from the last ten outcomes
  only. When a field of the reported result is absent, \<^verbatim>\<open>track_execution\<close> does not
  fail: success defaults to true, user satisfaction to 0.8, resource efficiency to 0.7,
  duration and error count to 0 and the suggestions to the empty list. The record with
  these defaults is appended to the stored history and stays there; it is among the
  outcomes from which the fitness is computed in this call and after each of the next
  nine outcomes reported for the workflow.
\<close>

theorem absent_fields_default:
  fixes t now wid r
  defines "old \<equiv> (case evolution_history t wid of None \<Rightarrow> [] | Some h \<Rightarrow> h)"
  shows "\<exists>t' d. track_execution t now wid r = Inr t'
           \<and> evolution_history t' wid = Some (old @ [d])
           \<and> timestamp d = now
           \<and> (duration r = None \<longrightarrow> execution_time d = 0)
           \<and> (success r = None \<longrightarrow> success_rate d = True)
           \<and> (res_user_satisfaction r = None \<longrightarrow> user_satisfaction d = 8 / 10)
           \<and> (res_resource_usage r = None \<longrightarrow> resource_efficiency d = 7 / 10)
           \<and> (errors r = None \<longrightarrow> error_count d = 0)
           \<and> (ai_suggestions r = None \<longrightarrow> improvement_suggestions d = [])
           \<and> fitness_scores t' wid
               = Some (spec_fitness (most_recent (min 10 (length (old @ [d]))) (old @ [d])))
           \<and> d \<in> set (most_recent (min 10 (length (old @ [d]))) (old @ [d]))
           \<and> (\<forall>rs. \<exists>t2 later.
                  track_all t' wid rs = Inr t2
                \<and> length later = length rs
                \<and> evolution_history t2 wid = Some (old @ d # later)
                \<and> fitness_scores t2 wid
                    = Some (spec_fitness (most_recent (min 10 (length (old @ d # later)))
                                            (old @ d # later)))
                \<and> (length rs < 10 \<longrightarrow>
                      d \<in> set (most_recent (min 10 (length (old @ d # later))) (old @ d # later))))"
proof -
  let ?d = "make_evolution_data now r"
  let ?h = "old @ [?d]"
  let ?f = "spec_fitness (most_recent (min 10 (length ?h)) ?h)"
  let ?t1 = "t\<lparr>evolution_history := (evolution_history t)(wid \<mapsto> ?h),
            fitness_scores := (fitness_scores t)(wid \<mapsto> ?f),
            mutation_strategies := (mutation_strategies t)(wid \<mapsto>
              (if ?f < 7 / 10 then moderate_mutations else [])
              @ (if ?f < 5 / 10 then severe_mutations else []))\<rparr>"
  have old: "old = dict_get (evolution_history t) wid []"
    by (simp add: old_def dict_get_def)
  have step: "track_execution t now wid r = Inr ?t1"
    unfolding old by (simp add: track_execution_result)
  have h1: "evolution_history ?t1 wid = Some ?h" by simp
  have h2: "?h \<noteq> []" by simp
  have h3: "fitness_scores ?t1 wid = Some ?f" by simp
  have dflt: "timestamp ?d = now
           \<and> (duration r = None \<longrightarrow> execution_time ?d = 0)
           \<and> (success r = None \<longrightarrow> success_rate ?d = True)
           \<and> (res_user_satisfaction r = None \<longrightarrow> user_satisfaction ?d = 8 / 10)
           \<and> (res_resource_usage r = None \<longrightarrow> resource_efficiency ?d = 7 / 10)
           \<and> (errors r = None \<longrightarrow> error_count ?d = 0)
           \<and> (ai_suggestions r = None \<longrightarrow> improvement_suggestions ?d = [])"
    by (simp add: make_evolution_data_def get_or_def)
  have now_in: "?d \<in> set (most_recent (min 10 (length ?h)) ?h)"
    using in_most_recent [of "[]" ?d old] by simp
  have later: "\<exists>t2 later.
                  track_all ?t1 wid rs = Inr t2
                \<and> length later = length rs
                \<and> evolution_history t2 wid = Some (old @ ?d # later)
                \<and> fitness_scores t2 wid
                    = Some (spec_fitness (most_recent (min 10 (length (old @ ?d # later)))
                                            (old @ ?d # later)))
                \<and> (length rs < 10 \<longrightarrow>
                      ?d \<in> set (most_recent (min 10 (length (old @ ?d # later))) (old @ ?d # later)))"
    for rs
  proof -
    let ?later = "map (\<lambda>(n, x). make_evolution_data n x) rs"
    from track_all_result [OF h1 h2 h3, of rs] obtain t2 where
      t2: "track_all ?t1 wid rs = Inr t2"
          "evolution_history t2 wid = Some (?h @ ?later)"
          "fitness_scores t2 wid =
             Some (spec_fitness (most_recent (min 10 (length (?h @ ?later))) (?h @ ?later)))"
      by blast
    have eq: "?h @ ?later = old @ ?d # ?later" by simp
    have "length rs < 10 \<longrightarrow>
            ?d \<in> set (most_recent (min 10 (length (old @ ?d # ?later))) (old @ ?d # ?later))"
      using in_most_recent [of ?later ?d old] by simp
    with t2 show ?thesis unfolding eq
      by (intro exI[of _ t2] exI[of _ ?later]) simp
  qed
  from later have later_all: "\<forall>rs. \<exists>t2 later.
                  track_all ?t1 wid rs = Inr t2
                \<and> length later = length rs
                \<and> evolution_history t2 wid = Some (old @ ?d # later)
                \<and> fitness_scores t2 wid
                    = Some (spec_fitness (most_recent (min 10 (length (old @ ?d # later)))
                                            (old @ ?d # later)))
                \<and> (length rs < 10 \<longrightarrow>
                      ?d \<in> set (most_recent (min 10 (length (old @ ?d # later))) (old @ ?d # later)))"
    by (rule allI)
  from step h1 h3 dflt now_in later_all show ?thesis
    by (intro exI[of _ ?t1] exI[of _ ?d]) blast
qed


theorem absent_fields_default_witness:
  "duration empty_result = None \<and> success empty_result = None
   \<and> res_user_satisfaction empty_result = None \<and> res_resource_usage empty_result = None
   \<and> errors empty_result = None \<and> ai_suggestions empty_result = None
   \<and> length ([] :: (rat \<times> execution_result) list) < 10
   \<and> (\<exists>d. history_of (track_execution empty_tracker 7 ''qwf_1700000000_42'' empty_result)
              ''qwf_1700000000_42'' = Some [d]
          \<and> timestamp d = 7 \<and> execution_time d = 0 \<and> success_rate d = True
          \<and> user_satisfaction d = 8 / 10 \<and> resource_efficiency d = 7 / 10
          \<and> error_count d = 0 \<and> improvement_suggestions d = []
          \<and> fitness_of (track_execution empty_tracker 7 ''qwf_1700000000_42'' empty_result)
              ''qwf_1700000000_42'' = Some (spec_fitness [d])
          \<and> spec_fitness [d] = 83 / 100)"
proof -
  let ?w = "''qwf_1700000000_42''"
  have n: "duration empty_result = None \<and> success empty_result = None
   \<and> res_user_satisfaction empty_result = None \<and> res_resource_usage empty_result = None
   \<and> errors empty_result = None \<and> ai_suggestions empty_result = None"
    by (simp add: empty_result_def)
  have e: "(case evolution_history empty_tracker ?w of None \<Rightarrow> [] | Some h \<Rightarrow> h) = []"
    by (simp add: empty_tracker_def)
  from absent_fields_default [of empty_tracker 7 ?w empty_result] n
  obtain t' d where
    r: "track_execution empty_tracker 7 ?w empty_result = Inr t'" and
    h: "evolution_history t' ?w = Some ([] @ [d])" and
    d: "timestamp d = 7" "execution_time d = 0" "success_rate d = True"
       "user_satisfaction d = 8 / 10" "resource_efficiency d = 7 / 10"
       "error_count d = 0" "improvement_suggestions d = []" and
    f: "fitness_scores t' ?w = Some (spec_fitness (most_recent (min 10 (length ([] @ [d]))) ([] @ [d])))"
    unfolding e by (elim exE conjE) simp
  from d have v: "spec_fitness [d] = 83 / 100"
    by (simp add: spec_fitness_def mean_def)
  from f have f': "fitness_scores t' ?w = Some (spec_fitness [d])"
    by (simp add: most_recent_def)
  from r h f' d v n show ?thesis
    by (simp add: history_of_def fitness_of_def)
qed

text \<open>
  A result without any key is recorded first and ten perfect results follow. The
  defaulted record is still the first of the eleven stored ones, yet the fitness is 1,
  as it is when the first result is the worst one possible.
\<close>

theorem defaults_leave_window_counterexample:
  "map_option hd (history_of (track_all empty_tracker ''qwf_1700000000_42''
        ((0, empty_result) # perfect_outcomes)) ''qwf_1700000000_42'')
     = Some \<lparr>timestamp = 0, execution_time = 0, success_rate = True, user_satisfaction = 8 / 10,
             resource_efficiency = 7 / 10, error_count = 0, improvement_suggestions = []\<rparr>
   \<and> map_option length (history_of (track_all empty_tracker ''qwf_1700000000_42''
        ((0, empty_result) # perfect_outcomes)) ''qwf_1700000000_42'')
     = Some 11
   \<and> fitness_of (track_all empty_tracker ''qwf_1700000000_42''
        ((0, empty_result) # perfect_outcomes)) ''qwf_1700000000_42''
     = Some 1
   \<and> fitness_of (track_all empty_tracker ''qwf_1700000000_42''
        ((0, outcome 0 0 False) # perfect_outcomes)) ''qwf_1700000000_42''
     = Some 1"
  by (simp add: perfect_outcomes_def track_execution_result empty_tracker_def dict_get_def
        history_of_def fitness_of_def most_recent_def spec_fitness_def mean_def
        make_evolution_data_def get_or_def outcome_def empty_result_def)

end
